theory Spec2Isabelle
  imports Complex_Main
begin

section \<open>The cart manager of \<^verbatim>\<open>src/hooks/useCart.tsx\<close>\<close>

text \<open>
  The hook keeps one piece of state, the cart, and offers three operations on it. Each
  operation reads the cart, may ask the HTTP API for a product or for its stock, replaces
  the cart (\<^verbatim>\<open>setCart\<close>), overwrites the snapshot in \<^verbatim>\<open>localStorage\<close> and reports every
  failure through \<^verbatim>\<open>toast.error\<close>.

  The embedding makes each of these effects a field of a state record that the operation
  takes and returns. The collaborators the file imports (the API, \<^verbatim>\<open>JSON\<close>,
  \<^verbatim>\<open>localStorage.setItem\<close>) are not code of the hook: they are the fields of a platform
  record, so that every theorem holds for every behaviour of theirs, and a failing call is
  a value (\<open>None\<close>, or a quota that is exceeded) rather than an exception HOL cannot raise.
  Product identifiers are keys, compared with \<^verbatim>\<open>===\<close> only: they are modelled as \<open>int\<close>.
  Quantities and stocks are JavaScript numbers, on which the hook computes: they are
  modelled as the doubles they are, with the rounding of \<^verbatim>\<open>+\<close> and with \<^verbatim>\<open>NaN\<close>.
\<close>

subsection \<open>Numbers\<close>

text \<open>
  What an expression typed \<^verbatim>\<open>number\<close> holds when the hook runs: a finite double (\<open>Finite r\<close>
  for the double whose value is the rational \<open>r\<close>; the two zeros, which no operator the
  hook uses tells apart, are both \<open>Finite 0\<close>), an infinity, \<^verbatim>\<open>NaN\<close>, or \<^verbatim>\<open>null\<close>: that is
  what \<^verbatim>\<open>JSON.parse\<close> gives for a quantity that \<^verbatim>\<open>JSON.stringify\<close> wrote as \<^verbatim>\<open>null\<close>, and the
  operators read it as 0.
\<close>

datatype number = Finite rat | Infinity | MinusInfinity | NaN | Null

text \<open>
  Rounding a rational to the nearest double, ties to the even significand (IEEE 754
  binary64, the rounding of every arithmetic operator of JavaScript). The magnitude is
  written \<open>a * 2 powi e\<close> with \<open>2 ^ 52 \<le> a < 2 ^ 53\<close>, or with \<open>e = - 1074\<close> and a smaller \<open>a\<close>
  for a subnormal; \<open>a\<close> is rounded to a whole number; a result from \<open>2 ^ 1024\<close> on is an
  infinity.
\<close>

function scale_down :: "rat \<Rightarrow> int \<Rightarrow> rat \<times> int" where
  "scale_down a e = (if 2 ^ 53 \<le> a then scale_down (a / 2) (e + 1) else (a, e))"
  by pat_completeness auto
termination
proof (relation "measure (\<lambda>(a, e). nat \<lfloor>a\<rfloor>)")
  show "wf (measure (\<lambda>(a, e). nat \<lfloor>a\<rfloor>))" by simp
next
  fix a :: rat and e :: int
  assume a: "2 ^ 53 \<le> a"
  then have "a / 2 \<le> a - 1" by simp
  then have "\<lfloor>a / 2\<rfloor> \<le> \<lfloor>a - 1\<rfloor>" by (rule floor_mono)
  moreover have "0 < \<lfloor>a\<rfloor>" using a by simp
  ultimately show "((a / 2, e + 1), (a, e)) \<in> measure (\<lambda>(a, e). nat \<lfloor>a\<rfloor>)"
    by simp
qed

function scale_up :: "rat \<Rightarrow> int \<Rightarrow> rat \<times> int" where
  "scale_up a e = (if a < 2 ^ 52 \<and> - 1074 < e then scale_up (2 * a) (e - 1) else (a, e))"
  by pat_completeness auto
termination
  by (relation "measure (\<lambda>(a, e). nat (e + 1074))") auto

definition round_half_even :: "rat \<Rightarrow> int" where
  "round_half_even a =
     (let f = \<lfloor>a\<rfloor>; d = a - of_int f in
      if d < 1 / 2 then f else if 1 / 2 < d then f + 1 else if even f then f else f + 1)"

definition round64 :: "rat \<Rightarrow> number" where
  "round64 x =
     (if x = 0 then Finite 0
      else
        (case scale_down \<bar>x\<bar> 0 of
           (a, e) \<Rightarrow>
             (case scale_up a e of
                (a', e') \<Rightarrow>
                  (let r = of_int (round_half_even a') * 2 powi e' in
                   if 2 ^ 1024 \<le> r then (if 0 < x then Infinity else MinusInfinity)
                   else Finite (if 0 < x then r else - r)))))"

text \<open>
  The operators of the hook. \<^verbatim>\<open>x + y\<close> on two numbers (\<^verbatim>\<open>null\<close> counts as 0; \<^verbatim>\<open>++x\<close> is
  \<^verbatim>\<open>x + 1\<close>):
\<close>

fun js_add :: "number \<Rightarrow> number \<Rightarrow> number" where
  "js_add (Finite a) (Finite b) = round64 (a + b)"
| "js_add (Finite a) Null = round64 (a + 0)"
| "js_add Null (Finite b) = round64 (0 + b)"
| "js_add Null Null = round64 (0 + 0)"
| "js_add NaN y = NaN"
| "js_add x NaN = NaN"
| "js_add Infinity MinusInfinity = NaN"
| "js_add MinusInfinity Infinity = NaN"
| "js_add Infinity y = Infinity"
| "js_add x Infinity = Infinity"
| "js_add MinusInfinity y = MinusInfinity"
| "js_add x MinusInfinity = MinusInfinity"

text \<open>\<^verbatim>\<open>x < y\<close>: false as soon as one side is \<^verbatim>\<open>NaN\<close>.\<close>

fun js_lt :: "number \<Rightarrow> number \<Rightarrow> bool" where
  "js_lt (Finite a) (Finite b) \<longleftrightarrow> a < b"
| "js_lt (Finite a) Null \<longleftrightarrow> a < 0"
| "js_lt Null (Finite b) \<longleftrightarrow> 0 < b"
| "js_lt Null Null \<longleftrightarrow> False"
| "js_lt NaN y \<longleftrightarrow> False"
| "js_lt x NaN \<longleftrightarrow> False"
| "js_lt Infinity y \<longleftrightarrow> False"
| "js_lt x MinusInfinity \<longleftrightarrow> False"
| "js_lt x Infinity \<longleftrightarrow> True"
| "js_lt MinusInfinity y \<longleftrightarrow> True"

text \<open>\<^verbatim>\<open>x > y\<close> is \<^verbatim>\<open>y < x\<close>; \<^verbatim>\<open>x <= y\<close> is true when neither side is \<^verbatim>\<open>NaN\<close> and \<^verbatim>\<open>y < x\<close> is false.\<close>

definition js_gt :: "number \<Rightarrow> number \<Rightarrow> bool" where
  "js_gt x y \<longleftrightarrow> js_lt y x"

definition js_le :: "number \<Rightarrow> number \<Rightarrow> bool" where
  "js_le x y \<longleftrightarrow> x \<noteq> NaN \<and> y \<noteq> NaN \<and> \<not> js_lt y x"

text \<open>
  \<^verbatim>\<open>x === 0\<close> on a number is the equality \<open>x = Finite 0\<close>: it is false for \<^verbatim>\<open>NaN\<close> and for
  \<^verbatim>\<open>null\<close>, and true for both zeros.
\<close>

subsection \<open>Data\<close>

text \<open>
  \<^verbatim>\<open>Product\<close> is declared in \<^verbatim>\<open>../types\<close>; the hook reads and writes its fields \<^verbatim>\<open>id\<close> and
  \<^verbatim>\<open>amount\<close> only and copies every other field with the spread operator. The other fields
  are the extension part of the record (\<open>'a Product_scheme\<close>). The field \<^verbatim>\<open>id\<close> is named
  \<open>id'\<close>, since \<open>id\<close> is the identity function of HOL.
\<close>

record Product =
  id' :: int
  amount :: number

text \<open>
  The four messages the hook passes to \<^verbatim>\<open>toast.error\<close> (the source's texts are Portuguese,
  written here without their accents):
  \<^item> \<open>Erro_na_adicao_do_produto\<close>: \<^verbatim>\<open>'Erro na adicao do produto'\<close>;
  \<^item> \<open>Erro_na_remocao_do_produto\<close>: \<^verbatim>\<open>'Erro na remocao do produto'\<close>;
  \<^item> \<open>Erro_na_alteracao_de_quantidade_do_produto\<close>:
    \<^verbatim>\<open>'Erro na alteracao de quantidade do produto'\<close>;
  \<^item> \<open>Quantidade_solicitada_fora_de_estoque\<close>: \<^verbatim>\<open>'Quantidade solicitada fora de estoque'\<close>.
\<close>

datatype toast_message =
    Erro_na_adicao_do_produto
  | Erro_na_remocao_do_produto
  | Erro_na_alteracao_de_quantidade_do_produto
  | Quantidade_solicitada_fora_de_estoque

text \<open>What a call of the platform can throw.\<close>

datatype exn =
    RequestError \<comment> \<open>a rejected \<^verbatim>\<open>api.get\<close>\<close>
  | SyntaxError \<comment> \<open>\<^verbatim>\<open>JSON.parse\<close> on a text that is not JSON\<close>
  | QuotaExceededError \<comment> \<open>\<^verbatim>\<open>localStorage.setItem\<close> on a full store\<close>

text \<open>How a block of statements ends: it returns, or an exception leaves it.\<close>

datatype outcome = Returned | Thrown exn

text \<open>
  The platform: \<open>api_get_product i\<close> is the \<^verbatim>\<open>data\<close> of \<^verbatim>\<open>api.get(`products/${i}`)\<close> and
  \<open>api_get_stock i\<close> the \<^verbatim>\<open>data.amount\<close> of \<^verbatim>\<open>api.get(`stock/${i}`)\<close>, \<open>None\<close> when the request
  is rejected; \<open>JSON_parse t\<close> is \<open>None\<close> when \<^verbatim>\<open>JSON.parse\<close> throws; \<open>quota_exceeded\<close> says
  whether \<^verbatim>\<open>setItem\<close> throws for a store, a key and a value.
\<close>

record 'a platform =
  api_get_product :: "int \<Rightarrow> 'a Product_scheme option"
  api_get_stock :: "int \<Rightarrow> number option"
  JSON_stringify :: "'a Product_scheme list \<Rightarrow> string"
  JSON_parse :: "string \<Rightarrow> 'a Product_scheme list option"
  quota_exceeded :: "(string \<rightharpoonup> string) \<Rightarrow> string \<Rightarrow> string \<Rightarrow> bool"

text \<open>
  The state an operation works on: the cart held by \<^verbatim>\<open>useState\<close>, the local store, and the
  notifications shown so far, oldest first.
\<close>

record 'a state =
  cart :: "'a Product_scheme list"
  localStorage :: "string \<rightharpoonup> string"
  toasts :: "toast_message list"

definition cart_key :: string where
  "cart_key = ''@RocketShoes:cart''"

subsection \<open>Initialisation\<close>

text \<open>
  The initialiser of \<^verbatim>\<open>useState\<close> (lines 25 to 33): \<^verbatim>\<open>getItem\<close> gives \<^verbatim>\<open>null\<close> for a missing
  key, and \<^verbatim>\<open>if (storagedCart)\<close> is false for \<^verbatim>\<open>null\<close> and for the empty text. Nothing
  catches what \<^verbatim>\<open>JSON.parse\<close> throws.
\<close>

definition initial_cart ::
  "'a platform \<Rightarrow> (string \<rightharpoonup> string) \<Rightarrow> exn + 'a Product_scheme list" where
  "initial_cart P store =
     (case store cart_key of
        None \<Rightarrow> Inr []
      | Some storagedCart \<Rightarrow>
          if storagedCart \<noteq> [] then
            (case JSON_parse P storagedCart of
               None \<Rightarrow> Inl SyntaxError
             | Some c \<Rightarrow> Inr c)
          else Inr [])"

subsection \<open>The helpers\<close>

definition showToastError :: "toast_message \<Rightarrow> 'a state \<Rightarrow> 'a state" where
  "showToastError message s = s\<lparr>toasts := toasts s @ [message]\<rparr>"

definition setCart :: "'a Product_scheme list \<Rightarrow> 'a state \<Rightarrow> 'a state" where
  "setCart updatedCart s = s\<lparr>cart := updatedCart\<rparr>"

definition persistCartOnLocalStorage ::
  "'a platform \<Rightarrow> 'a Product_scheme list \<Rightarrow> 'a state \<Rightarrow> outcome \<times> 'a state" where
  "persistCartOnLocalStorage P c s =
     (let text = JSON_stringify P c in
      if quota_exceeded P (localStorage s) cart_key text
      then (Thrown QuotaExceededError, s)
      else (Returned, s\<lparr>localStorage := (localStorage s)(cart_key \<mapsto> text)\<rparr>))"

text \<open>
  \<^verbatim>\<open>try { body } catch { handler }\<close>: the handler runs in the state the body had reached
  when it threw, and the block returns.
\<close>

definition try_catch ::
  "outcome \<times> 'a state \<Rightarrow> ('a state \<Rightarrow> 'a state) \<Rightarrow> outcome \<times> 'a state" where
  "try_catch body handler =
     (case body of
        (Returned, s) \<Rightarrow> (Returned, s)
      | (Thrown e, s) \<Rightarrow> (Returned, handler s))"

text \<open>Lines 100 to 120. The stock is asked for \<^verbatim>\<open>data.id\<close>, the identifier in the answer.\<close>

definition handleAddNewProduct ::
  "'a platform \<Rightarrow> int \<Rightarrow> 'a state \<Rightarrow> outcome \<times> 'a state" where
  "handleAddNewProduct P productId s =
     (case api_get_product P productId of
        None \<Rightarrow> (Thrown RequestError, s)
      | Some data \<Rightarrow>
          (case api_get_stock P (id' data) of
             None \<Rightarrow> (Thrown RequestError, s)
           | Some stock \<Rightarrow>
               if stock = Finite 0
               then (Returned, showToastError Quantidade_solicitada_fora_de_estoque s)
               else
                 (let updatedCart = cart s @ [data\<lparr>amount := Finite 1\<rparr>] in
                  persistCartOnLocalStorage P updatedCart (setCart updatedCart s))))"

text \<open>
  Lines 122 to 137. \<^verbatim>\<open>++item.amount\<close> also writes the incremented amount into the object of
  the old array; the old array is replaced by \<^verbatim>\<open>setCart\<close> in the same call, and the new
  entry \<^verbatim>\<open>{ ...item, amount: ++item.amount }\<close> carries the old amount plus one.
\<close>

definition handleUpdateAmountOnExistingProduct ::
  "'a platform \<Rightarrow> 'a Product_scheme \<Rightarrow> 'a state \<Rightarrow> outcome \<times> 'a state" where
  "handleUpdateAmountOnExistingProduct P productFound s =
     (case api_get_stock P (id' productFound) of
        None \<Rightarrow> (Thrown RequestError, s)
      | Some stock \<Rightarrow>
          if js_gt (js_add (amount productFound) (Finite 1)) stock
          then (Returned, showToastError Quantidade_solicitada_fora_de_estoque s)
          else
            (let updatedCart =
               map (\<lambda>item. if id' item = id' productFound
                           then item\<lparr>amount := js_add (amount item) (Finite 1)\<rparr>
                           else item) (cart s) in
             persistCartOnLocalStorage P updatedCart (setCart updatedCart s)))"

subsection \<open>The three operations\<close>

text \<open>
  Each operation is one \<^verbatim>\<open>try\<close> block with a \<^verbatim>\<open>catch\<close> that shows a notification; the
  block is the function named \<open>_try\<close>. Lines 35 to 49:
\<close>

definition addProduct_try ::
  "'a platform \<Rightarrow> int \<Rightarrow> 'a state \<Rightarrow> outcome \<times> 'a state" where
  "addProduct_try P productId s =
     (case find (\<lambda>item. id' item = productId) (cart s) of
        None \<Rightarrow> handleAddNewProduct P productId s
      | Some productFound \<Rightarrow> handleUpdateAmountOnExistingProduct P productFound s)"

definition addProduct :: "'a platform \<Rightarrow> int \<Rightarrow> 'a state \<Rightarrow> outcome \<times> 'a state" where
  "addProduct P productId s =
     try_catch (addProduct_try P productId s) (showToastError Erro_na_adicao_do_produto)"

text \<open>Lines 51 to 67.\<close>

definition removeProduct_try ::
  "'a platform \<Rightarrow> int \<Rightarrow> 'a state \<Rightarrow> outcome \<times> 'a state" where
  "removeProduct_try P productId s =
     (case find (\<lambda>item. id' item = productId) (cart s) of
        None \<Rightarrow> (Returned, showToastError Erro_na_remocao_do_produto s)
      | Some productFound \<Rightarrow>
          (let updatedCart = filter (\<lambda>item. id' item \<noteq> productId) (cart s) in
           persistCartOnLocalStorage P updatedCart (setCart updatedCart s)))"

definition removeProduct :: "'a platform \<Rightarrow> int \<Rightarrow> 'a state \<Rightarrow> outcome \<times> 'a state" where
  "removeProduct P productId s =
     try_catch (removeProduct_try P productId s) (showToastError Erro_na_remocao_do_produto)"

text \<open>
  Lines 69 to 98. The argument \<^verbatim>\<open>amount\<close> is \<open>amount'\<close> here, \<open>amount\<close> being the field. The
  three disjuncts of line 76 lead to the same notification; the missing entry is the first
  case below. The guard of line 83 compares the entry's amount plus the requested one with
  the stock; line 89 then stores the requested amount.
\<close>

definition updateProductAmount_try ::
  "'a platform \<Rightarrow> int \<Rightarrow> number \<Rightarrow> 'a state \<Rightarrow> outcome \<times> 'a state" where
  "updateProductAmount_try P productId amount' s =
     (case find (\<lambda>item. id' item = productId) (cart s) of
        None \<Rightarrow> (Returned, showToastError Erro_na_alteracao_de_quantidade_do_produto s)
      | Some productFound \<Rightarrow>
          if js_le amount' (Finite 0) \<or> js_le (amount productFound) (Finite 0)
          then (Returned, showToastError Erro_na_alteracao_de_quantidade_do_produto s)
          else
            (case api_get_stock P productId of
               None \<Rightarrow> (Thrown RequestError, s)
             | Some stock \<Rightarrow>
                 if js_gt (js_add (amount productFound) amount') stock
                 then (Returned, showToastError Quantidade_solicitada_fora_de_estoque s)
                 else
                   (let updatedCart =
                      map (\<lambda>item. if id' item = id' productFound
                                  then item\<lparr>amount := amount'\<rparr> else item) (cart s) in
                    persistCartOnLocalStorage P updatedCart (setCart updatedCart s))))"

definition updateProductAmount ::
  "'a platform \<Rightarrow> int \<Rightarrow> number \<Rightarrow> 'a state \<Rightarrow> outcome \<times> 'a state" where
  "updateProductAmount P productId amount' s =
     try_catch (updateProductAmount_try P productId amount' s)
       (showToastError Erro_na_alteracao_de_quantidade_do_produto)"

text \<open>The calls the hook exposes to the user interface, as one type.\<close>

datatype operation =
    AddProduct int
  | RemoveProduct int
  | UpdateProductAmount int number

fun run :: "'a platform \<Rightarrow> operation \<Rightarrow> 'a state \<Rightarrow> outcome \<times> 'a state" where
  "run P (AddProduct productId) s = addProduct P productId s"
| "run P (RemoveProduct productId) s = removeProduct P productId s"
| "run P (UpdateProductAmount productId amount') s = updateProductAmount P productId amount' s"

text \<open>The \<^verbatim>\<open>try\<close> block of a call: an exception it throws is a failed call of the platform.\<close>

fun run_try :: "'a platform \<Rightarrow> operation \<Rightarrow> 'a state \<Rightarrow> outcome \<times> 'a state" where
  "run_try P (AddProduct productId) s = addProduct_try P productId s"
| "run_try P (RemoveProduct productId) s = removeProduct_try P productId s"
| "run_try P (UpdateProductAmount productId amount') s =
     updateProductAmount_try P productId amount' s"

text \<open>The notification of the \<^verbatim>\<open>catch\<close> block of each operation.\<close>

fun catch_message :: "operation \<Rightarrow> toast_message" where
  "catch_message (AddProduct productId) = Erro_na_adicao_do_produto"
| "catch_message (RemoveProduct productId) = Erro_na_remocao_do_produto"
| "catch_message (UpdateProductAmount productId amount') =
     Erro_na_alteracao_de_quantidade_do_produto"

subsection \<open>The four ways a try block ends\<close>





subsection \<open>The cart invariant of the data model\<close>

text \<open>
  The property the specification asks of a cart: no two entries with the same identifier,
  and every quantity at least 1.
\<close>

definition cart_invariant :: "'a Product_scheme list \<Rightarrow> bool" where
  "cart_invariant c \<longleftrightarrow>
     distinct (map id' c) \<and> list_all (\<lambda>item. js_le (Finite 1) (amount item)) c"

subsection \<open>A sample platform\<close>

text \<open>
  The theorems below hold for every platform. The examples run the operations on one
  platform: products whose only fields are \<^verbatim>\<open>id\<close> and \<^verbatim>\<open>amount\<close>, a store that is never
  full, an API that knows the products 1, 2, 3 and 4 with the stocks 5, 0, -1 and 2^53, and
  a codec for the compact text \<^verbatim>\<open>JSON.stringify\<close> writes for such a cart,
  \<^verbatim>\<open>[{"id":1,"amount":2},{"id":3,"amount":1}]\<close>. As \<^verbatim>\<open>JSON.stringify\<close> does, the encoder
  writes a whole number in decimal (the examples stay below 10^21, where
  \<^verbatim>\<open>JSON.stringify\<close> changes to an exponent) and \<^verbatim>\<open>null\<close> for \<^verbatim>\<open>NaN\<close>, for the infinities
  and for \<^verbatim>\<open>null\<close>; it writes a fraction with all its decimal digits, which is the text of
  \<^verbatim>\<open>JSON.stringify\<close> for fractions such as 0.5 and 2.25. The decoder reads the texts of
  that form, a number to the nearest double; a text that is cut off, or that is no list
  of such entries, it rejects.
\<close>

text \<open>The decimal digits of a whole number from 0 on.\<close>

function show_digits :: "int \<Rightarrow> string" where
  "show_digits n =
     (if n < 10 then [char_of (48 + n)]
      else show_digits (n div 10) @ [char_of (48 + n mod 10)])"
  by pat_completeness auto
termination
  by (relation "measure nat") auto

definition show_int :: "int \<Rightarrow> string" where
  "show_int i = (if i < 0 then CHR ''-'' # show_digits (- i) else show_digits i)"

text \<open>The first \<open>k\<close> decimal digits of a fraction below 1, up to its last digit.\<close>

function frac_digits :: "int \<Rightarrow> rat \<Rightarrow> string" where
  "frac_digits k f =
     (if k \<le> 0 \<or> f = 0 then []
      else char_of (48 + \<lfloor>10 * f\<rfloor>) # frac_digits (k - 1) (10 * f - of_int \<lfloor>10 * f\<rfloor>))"
  by pat_completeness auto
termination
  by (relation "measure (\<lambda>(k, f). nat k)") auto

definition show_number :: "number \<Rightarrow> string" where
  "show_number x =
     (case x of
        Finite r \<Rightarrow>
          if of_int \<lfloor>r\<rfloor> = r then show_int \<lfloor>r\<rfloor>
          else (if r < 0 then ''-'' else []) @ show_digits \<lfloor>\<bar>r\<bar>\<rfloor> @ ''.'' @
            frac_digits (snd (quotient_of r)) (\<bar>r\<bar> - of_int \<lfloor>\<bar>r\<bar>\<rfloor>)
      | _ \<Rightarrow> ''null'')"

definition show_product :: "Product \<Rightarrow> string" where
  \<open>show_product p =
     ''{"id":'' @ show_int (id' p) @ '',"amount":'' @ show_number (amount p) @ ''}''\<close>

fun show_products :: "Product list \<Rightarrow> string" where
  "show_products [] = []"
| "show_products [p] = show_product p"
| "show_products (p # ps) = show_product p @ '','' @ show_products ps"

definition show_cart :: "Product list \<Rightarrow> string" where
  "show_cart c = ''['' @ show_products c @ '']''"

fun read_digits :: "int \<Rightarrow> string \<Rightarrow> int option" where
  "read_digits acc [] = Some acc"
| "read_digits acc (c # cs) =
     (if (48::int) \<le> of_char c \<and> of_char c \<le> (57::int)
      then read_digits (10 * acc + (of_char c - 48)) cs else None)"

definition read_int :: "string \<Rightarrow> int option" where
  "read_int t =
     (case t of
        [] \<Rightarrow> None
      | c # cs \<Rightarrow>
          if c = CHR ''-''
          then (if cs = [] then None else map_option uminus (read_digits 0 cs))
          else read_digits 0 t)"

fun strip_prefix :: "string \<Rightarrow> string \<Rightarrow> string option" where
  "strip_prefix [] t = Some t"
| "strip_prefix (c # cs) [] = None"
| "strip_prefix (c # cs) (d # ds) = (if c = d then strip_prefix cs ds else None)"

text \<open>The pieces of a text between the occurrences of a character.\<close>

fun split_on :: "char \<Rightarrow> string \<Rightarrow> string list" where
  "split_on c [] = [[]]"
| "split_on c (d # ds) =
     (case split_on c ds of
        [] \<Rightarrow> [[d]]
      | w # ws \<Rightarrow> if d = c then [] # w # ws else (d # w) # ws)"

text \<open>Digits, or digits, a point and digits.\<close>

definition read_decimal :: "string \<Rightarrow> rat option" where
  "read_decimal t =
     (case split_on CHR ''.'' t of
        [i] \<Rightarrow> if i = [] then None else map_option of_int (read_digits 0 i)
      | [i, f] \<Rightarrow>
          if i = [] \<or> f = [] then None
          else
            (case (read_digits 0 i, read_digits 0 f) of
               (Some n, Some m) \<Rightarrow> Some (of_int n + of_int m / 10 ^ length f)
             | _ \<Rightarrow> None)
      | _ \<Rightarrow> None)"

definition read_number :: "string \<Rightarrow> number option" where
  "read_number t =
     (if t = ''null'' then Some Null
      else
        (case t of
           [] \<Rightarrow> None
         | c # cs \<Rightarrow>
             if c = CHR ''-'' then map_option (\<lambda>v. round64 (- v)) (read_decimal cs)
             else map_option round64 (read_decimal t)))"

text \<open>One entry without its closing brace.\<close>

definition read_product :: "string \<Rightarrow> Product option" where
  \<open>read_product t =
     (case strip_prefix ''{"id":'' t of
        None \<Rightarrow> None
      | Some r \<Rightarrow>
          (case split_on CHR '','' r of
             [i, a] \<Rightarrow>
               (case (read_int i, Option.bind (strip_prefix ''"amount":'' a) read_number) of
                  (Some n, Some m) \<Rightarrow> Some \<lparr>id' = n, amount = m\<rparr>
                | _ \<Rightarrow> None)
           | _ \<Rightarrow> None))\<close>

text \<open>The entries after the first: each follows a comma.\<close>

fun read_products :: "string list \<Rightarrow> Product list option" where
  "read_products [] = Some []"
| "read_products (t # ts) =
     (case (Option.bind (strip_prefix '','' t) read_product, read_products ts) of
        (Some p, Some ps) \<Rightarrow> Some (p # ps)
      | _ \<Rightarrow> None)"

definition read_cart :: "string \<Rightarrow> Product list option" where
  \<open>read_cart t =
     (if t = ''[]'' then Some []
      else
        (case strip_prefix ''['' t of
           None \<Rightarrow> None
         | Some r \<Rightarrow>
             (case rev (split_on CHR ''}'' r) of
                [] \<Rightarrow> None
              | e # ws \<Rightarrow>
                  if e = '']'' \<and> ws \<noteq> [] then
                    (case rev ws of
                       [] \<Rightarrow> None
                     | w # ws' \<Rightarrow>
                         (case (read_product w, read_products ws') of
                            (Some p, Some ps) \<Rightarrow> Some (p # ps)
                          | _ \<Rightarrow> None))
                  else None)))\<close>

definition sample_platform :: "unit platform" where
  "sample_platform =
     \<lparr>api_get_product =
        (\<lambda>i. if 1 \<le> i \<and> i \<le> 4 then Some \<lparr>id' = i, amount = Finite 0\<rparr> else None),
      api_get_stock =
        (\<lambda>i. if i = 1 then Some (Finite 5) else if i = 2 then Some (Finite 0)
             else if i = 3 then Some (Finite (- 1))
             else if i = 4 then Some (Finite (2 ^ 53)) else None),
      JSON_stringify = show_cart,
      JSON_parse = read_cart,
      quota_exceeded = (\<lambda>store key text. False)\<rparr>"


text \<open>The same platform with an API that answers every product request with product 1.\<close>

definition one_product_platform :: "unit platform" where
  "one_product_platform =
     sample_platform\<lparr>api_get_product := (\<lambda>i. Some \<lparr>id' = 1, amount = Finite 0\<rparr>)\<rparr>"

text \<open>
  The same platform with an API whose stock answers are \<^verbatim>\<open>NaN\<close> (for the comparisons of
  the hook, so is the \<^verbatim>\<open>amount\<close> of an answer that has none: \<^verbatim>\<open>undefined\<close> is compared as
  \<^verbatim>\<open>NaN\<close>).
\<close>

definition nan_stock_platform :: "unit platform" where
  "nan_stock_platform = sample_platform\<lparr>api_get_stock := (\<lambda>i. Some NaN)\<rparr>"

text \<open>A session that starts with an empty store and no notification.\<close>

definition session :: "Product list \<Rightarrow> unit state" where
  "session c = \<lparr>cart = c, localStorage = Map.empty, toasts = []\<rparr>"

section \<open>Numbers\<close>

subsection \<open>The rounding\<close>

lemma scale_down_small: "a < 2 ^ 53 \<Longrightarrow> scale_down a e = (a, e)"
  by (simp add: scale_down.simps [of a e])

text \<open>Scaling keeps the value \<open>a * 2 powi e\<close>.\<close>

lemma scale_down_value:
  "scale_down a e = (a', e') \<Longrightarrow> a' * 2 powi e' = a * 2 powi e"
proof (induction a e rule: scale_down.induct)
  case (1 a e)
  show ?case
  proof (cases "2 ^ 53 \<le> a")
    case True
    with "1.prems" have "scale_down (a / 2) (e + 1) = (a', e')"
      by (simp add: scale_down.simps [of a e])
    with "1.IH" True have "a' * 2 powi e' = a / 2 * 2 powi (e + 1)"
      by blast
    then show ?thesis
      by (simp add: power_int_add)
  next
    case False
    then have "scale_down a e = (a, e)"
      by (subst scale_down.simps) simp
    with "1.prems" show ?thesis
      by simp
  qed
qed

lemma scale_up_value:
  "scale_up a e = (a', e') \<Longrightarrow> a' * 2 powi e' = a * 2 powi e"
proof (induction a e rule: scale_up.induct)
  case (1 a e)
  show ?case
  proof (cases "a < 2 ^ 52 \<and> - 1074 < e")
    case True
    with "1.prems" have "scale_up (2 * a) (e - 1) = (a', e')"
      by (simp add: scale_up.simps [of a e])
    with "1.IH" True have "a' * 2 powi e' = 2 * a * 2 powi (e - 1)"
      by blast
    then show ?thesis
      by (simp add: power_int_diff)
  next
    case False
    then have "scale_up a e = (a, e)"
      by (subst scale_up.simps) simp
    with "1.prems" show ?thesis
      by simp
  qed
qed

text \<open>Scaling down raises the exponent; it stops at a significand of 53 bits.\<close>

lemma scale_down_exponent:
  "scale_down a e = (a', e') \<Longrightarrow> e \<le> e' \<and> (e' = e \<and> a' = a \<or> 2 ^ 52 \<le> a')"
proof (induction a e rule: scale_down.induct)
  case (1 a e)
  show ?case
  proof (cases "2 ^ 53 \<le> a")
    case True
    with "1.prems" have s: "scale_down (a / 2) (e + 1) = (a', e')"
      by (simp add: scale_down.simps [of a e])
    with "1.IH" True
    have "e + 1 \<le> e' \<and> (e' = e + 1 \<and> a' = a / 2 \<or> 2 ^ 52 \<le> a')"
      by blast
    with True show ?thesis by auto
  next
    case False
    then have "scale_down a e = (a, e)"
      by (subst scale_down.simps) simp
    with "1.prems" show ?thesis by simp
  qed
qed

text \<open>Scaling up lowers the exponent, and leaves a significand of 53 bits alone.\<close>

lemma scale_up_exponent:
  "scale_up a e = (a', e') \<Longrightarrow> e' \<le> e \<and> (2 ^ 52 \<le> a \<longrightarrow> a' = a \<and> e' = e)"
proof (induction a e rule: scale_up.induct)
  case (1 a e)
  show ?case
  proof (cases "a < 2 ^ 52 \<and> - 1074 < e")
    case True
    with "1.prems" have "scale_up (2 * a) (e - 1) = (a', e')"
      by (simp add: scale_up.simps [of a e])
    with "1.IH" True have "e' \<le> e - 1"
      by blast
    with True show ?thesis by auto
  next
    case False
    then have "scale_up a e = (a, e)"
      by (subst scale_up.simps) simp
    with "1.prems" show ?thesis by simp
  qed
qed

lemma scale_up_int:
  "scale_up a e = (a', e') \<Longrightarrow> a \<in> \<int> \<Longrightarrow> a' \<in> \<int>"
proof (induction a e rule: scale_up.induct)
  case (1 a e)
  show ?case
  proof (cases "a < 2 ^ 52 \<and> - 1074 < e")
    case True
    with "1.prems" have "scale_up (2 * a) (e - 1) = (a', e')"
      by (simp add: scale_up.simps [of a e])
    moreover have "2 * a \<in> \<int>"
      using "1.prems"(2) by simp
    ultimately show ?thesis
      using "1.IH" True by blast
  next
    case False
    then have "scale_up a e = (a, e)"
      by (subst scale_up.simps) simp
    with "1.prems" show ?thesis
      by simp
  qed
qed

lemma round_half_even_int: "a \<in> \<int> \<Longrightarrow> of_int (round_half_even a) = a"
  by (auto simp: round_half_even_def Let_def elim!: Ints_cases)

lemma round_half_even_lower: "a - 1 / 2 \<le> of_int (round_half_even a)"
proof -
  have "of_int \<lfloor>a\<rfloor> \<le> a" "a < of_int \<lfloor>a\<rfloor> + 1"
    by linarith+
  then show ?thesis
    by (auto simp: round_half_even_def Let_def)
qed

text \<open>A whole number from 1 to 2^53 is a double.\<close>

lemma round64_pos_int:
  assumes "0 < n" and "n \<le> 2 ^ 53"
  shows "round64 (of_int n) = Finite (of_int n)"
proof -
  obtain a e where d: "scale_down \<bar>of_int n\<bar> 0 = (a, e)"
    by (cases "scale_down \<bar>of_int n :: rat\<bar> 0") auto
  obtain a' e' where u: "scale_up a e = (a', e')"
    by (cases "scale_up a e") auto
  have abs: "\<bar>of_int n :: rat\<bar> = of_int n"
    using assms(1) by simp
  have "a \<in> \<int>"
  proof (cases "n = 2 ^ 53")
    case True
    then have "scale_down \<bar>of_int n\<bar> 0 = (2 ^ 52, 1)"
      by (simp add: scale_down.simps [of "2 ^ 53" 0] scale_down.simps [of "2 ^ 52" 1])
    with d show ?thesis by auto
  next
    case False
    with assms(2) have "n < 2 ^ 53" by simp
    then have "(of_int n :: rat) < 2 ^ 53"
      by (metis of_int_less_numeral_power_cancel_iff)
    then have "scale_down \<bar>of_int n\<bar> 0 = (of_int n, 0)"
      by (simp add: abs scale_down_small)
    with d show ?thesis by auto
  qed
  then have "a' \<in> \<int>"
    using scale_up_int [OF u] by simp
  then have r: "of_int (round_half_even a') = a'"
    by (rule round_half_even_int)
  have "a' * 2 powi e' = of_int n"
    using scale_up_value [OF u] scale_down_value [OF d] abs by simp
  moreover have "(of_int n :: rat) \<le> 2 ^ 53"
    using assms(2) by (metis of_int_le_numeral_power_cancel_iff)
  moreover have "(2 :: rat) ^ 53 < 2 ^ 1024"
    by simp
  ultimately show ?thesis
    using assms(1) d u r by (simp add: round64_def Let_def)
qed

lemma round64_neg:
  "round64 (- x) =
     (case round64 x of
        Finite r \<Rightarrow> Finite (- r)
      | Infinity \<Rightarrow> MinusInfinity
      | MinusInfinity \<Rightarrow> Infinity
      | y \<Rightarrow> y)"
  by (cases "scale_down \<bar>x\<bar> 0";
      cases "scale_up (fst (scale_down \<bar>x\<bar> 0)) (snd (scale_down \<bar>x\<bar> 0))")
    (auto simp: round64_def Let_def)

text \<open>Every whole number of magnitude up to 2^53 is a double: rounding leaves it.\<close>

lemma round64_int:
  assumes "\<bar>n\<bar> \<le> 2 ^ 53"
  shows "round64 (of_int n) = Finite (of_int n)"
proof (cases "0 < n")
  case True
  with assms show ?thesis by (simp add: round64_pos_int)
next
  case False
  show ?thesis
  proof (cases "n = 0")
    case True
    then show ?thesis by (simp add: round64_def)
  next
    case n: False
    with False assms have "0 < - n" "- n \<le> 2 ^ 53" by simp_all
    then have "round64 (of_int (- n)) = Finite (of_int (- n))"
      by (rule round64_pos_int)
    then have "round64 (- of_int n) = Finite (- of_int n)"
      by simp
    then show ?thesis
      using round64_neg [of "- of_int n"] by simp
  qed
qed

text \<open>Rounding a number from 2 on gives a double from 1 on, or Infinity.\<close>

lemma round64_from_two:
  assumes "2 \<le> x"
  shows "round64 x = Infinity \<or> (\<exists>r. round64 x = Finite r \<and> 1 \<le> r)"
proof -
  obtain a e where d: "scale_down \<bar>x\<bar> 0 = (a, e)"
    by (cases "scale_down \<bar>x\<bar> 0") auto
  obtain a' e' where u: "scale_up a e = (a', e')"
    by (cases "scale_up a e") auto
  define v :: rat where "v = of_int (round_half_even a') * 2 powi e'"
  have x: "a' * 2 powi e' = x"
    using scale_up_value [OF u] scale_down_value [OF d] assms by simp
  have p: "(0 :: rat) < 2 powi e'"
    by simp
  have "(a' - 1 / 2) * 2 powi e' \<le> v"
    unfolding v_def using round_half_even_lower [of a'] p
    by (simp add: mult_right_mono)
  then have low: "x - 2 powi e' / 2 \<le> v"
    using x by (simp add: algebra_simps)
  have "1 \<le> v"
  proof (cases "e' \<le> 0")
    case True
    then have "(2 :: rat) powi e' \<le> 2 powi 0"
      by (intro power_int_increasing) simp_all
    with low assms show ?thesis by simp
  next
    case False
    with scale_up_exponent [OF u] have "0 < e" by simp
    with scale_down_exponent [OF d] have "2 ^ 52 \<le> a" by simp
    with scale_up_exponent [OF u] have a': "a' = a" "e' = e" by simp_all
    from False have "(2 :: rat) powi 0 \<le> 2 powi e'"
      by (intro power_int_increasing) simp_all
    then have one: "(1 :: rat) \<le> 2 powi e'" by simp
    have "(1 :: rat) \<le> a' - 1 / 2"
      using \<open>2 ^ 52 \<le> a\<close> a' by simp
    then have "1 * 1 \<le> (a' - 1 / 2) * 2 powi e'"
      using one by (intro mult_mono) simp_all
    with \<open>(a' - 1 / 2) * 2 powi e' \<le> v\<close> show ?thesis by simp
  qed
  then show ?thesis
    using assms d u by (auto simp: round64_def Let_def v_def)
qed

subsection \<open>The operators\<close>

text \<open>Without \<^verbatim>\<open>NaN\<close>, \<^verbatim>\<open>x > y\<close> is the negation of \<^verbatim>\<open>x <= y\<close>.\<close>

lemma js_gt_iff_not_le: "x \<noteq> NaN \<Longrightarrow> y \<noteq> NaN \<Longrightarrow> js_gt x y \<longleftrightarrow> \<not> js_le x y"
  by (simp add: js_gt_def js_le_def)

lemma js_le_one_cases:
  "js_le (Finite 1) x \<longleftrightarrow> x = Infinity \<or> (\<exists>r. x = Finite r \<and> 1 \<le> r)"
  by (cases x) (auto simp: js_le_def)

text \<open>The sum of two whole numbers is exact while its magnitude is at most 2^53.\<close>

lemma js_add_int:
  "\<bar>a + b\<bar> \<le> 2 ^ 53 \<Longrightarrow>
   js_add (Finite (of_int a)) (Finite (of_int b)) = Finite (of_int (a + b))"
  using round64_int [of "a + b"] by simp

text \<open>For the examples: a whole number written as a numeral.\<close>

lemma round64_numeral:
  "(numeral n :: int) \<le> 2 ^ 53 \<Longrightarrow> round64 (numeral n) = Finite (numeral n)"
  using round64_int [of "numeral n"] by simp

lemma round64_one: "round64 1 = Finite 1"
  using round64_int [of 1] by simp

lemmas round64_small = round64_numeral round64_one

text \<open>Adding 1 to a quantity of at least 1 gives a quantity of at least 1.\<close>

lemma js_add_one_ge_one:
  assumes "js_le (Finite 1) x"
  shows "js_le (Finite 1) (js_add x (Finite 1))"
proof -
  from assms consider "x = Infinity" | r where "x = Finite r" "1 \<le> r"
    by (auto simp: js_le_one_cases)
  then show ?thesis
  proof cases
    case 1
    then show ?thesis by (simp add: js_le_def)
  next
    case 2
    then have "2 \<le> r + 1" by simp
    from round64_from_two [OF this] 2 show ?thesis
      by (auto simp: js_le_one_cases)
  qed
qed

text \<open>Three sums of the examples: at 2^53 the sum with 1 is rounded back to 2^53.\<close>

lemma js_add_2_53_one:
  "js_add (Finite 9007199254740992) (Finite 1) = Finite 9007199254740992"
  by code_simp

lemma js_add_two_half: "js_add (Finite 2) (Finite (1 / 2)) = Finite (5 / 2)"
  by code_simp

section \<open>Basic facts\<close>

lemma session_simps [simp]:
  "cart (session c) = c" "localStorage (session c) = Map.empty" "toasts (session c) = []"
  by (simp_all add: session_def)

lemma run_pair: "r = (fst r, snd r)"
  by simp

lemma persist_cases:
  "persistCartOnLocalStorage P c s =
     (if quota_exceeded P (localStorage s) cart_key (JSON_stringify P c)
      then (Thrown QuotaExceededError, s)
      else (Returned, s\<lparr>localStorage := (localStorage s)(cart_key \<mapsto> JSON_stringify P c)\<rparr>))"
  by (simp add: persistCartOnLocalStorage_def Let_def)

text \<open>\<^verbatim>\<open>cart.find\<close> gives the first entry with the identifier, if there is one.\<close>

lemma find_id_Some:
  "find (\<lambda>item. id' item = productId) c = Some p \<Longrightarrow> id' p = productId \<and> p \<in> set c"
  by (auto simp: find_Some_iff)

lemma find_id_None:
  "find (\<lambda>item. id' item = productId) c = None \<longleftrightarrow> productId \<notin> id' ` set c"
  by (auto simp: find_None_iff)

lemma run_try_catch:
  "run P op s = try_catch (run_try P op s) (showToastError (catch_message op))"
  by (cases op) (simp_all add: addProduct_def removeProduct_def updateProductAmount_def)

lemma cart_try_catch:
  "cart (snd (try_catch r (showToastError m))) = cart (snd r)"
  by (auto simp: try_catch_def showToastError_def split: prod.splits outcome.splits)

subsection \<open>How a try block ends\<close>





subsection \<open>The sample codec on the texts of the examples\<close>

lemma read_cart_brace: "read_cart ''{'' = None"
  by code_simp

lemma read_cart_one_two:
  \<open>read_cart ''[{"id":1,"amount":2}]'' = Some [\<lparr>id' = 1, amount = Finite 2\<rparr>]\<close>
  by code_simp

lemma read_cart_cut: \<open>read_cart ''[{"id":1,'' = None\<close>
  by code_simp





lemma show_cart_four_2_53:
  \<open>show_cart [\<lparr>id' = 4, amount = Finite 9007199254740992\<rparr>] =
     ''[{"id":4,"amount":9007199254740992}]''\<close>
  by code_simp

section \<open>Initialisation\<close>

text \<open>
  C2, as amended. The initial cart is the empty list, and nothing is thrown, when the store
  has no entry under the key or an empty text; it is the decoded cart when the stored text
  is not empty and \<^verbatim>\<open>JSON.parse\<close> decodes it; and when the stored text is not empty and
  \<^verbatim>\<open>JSON.parse\<close> throws, the initialiser throws that error: no \<^verbatim>\<open>try\<close> surrounds the call.
\<close>

theorem initial_cart_cases:
  "(store cart_key = None \<or> store cart_key = Some [] \<longrightarrow> initial_cart P store = Inr []) \<and>
   (\<forall>t c. store cart_key = Some t \<and> t \<noteq> [] \<and> JSON_parse P t = Some c \<longrightarrow>
      initial_cart P store = Inr c) \<and>
   (\<forall>t. store cart_key = Some t \<and> t \<noteq> [] \<and> JSON_parse P t = None \<longrightarrow>
      initial_cart P store = Inl SyntaxError)"
  by (auto simp: initial_cart_def)

text \<open>
  The four cases on the sample platform: no entry, an empty text, the text of a cart, and a
  text cut off in the middle.
\<close>

theorem initial_cart_cases_witness:
  \<open>initial_cart sample_platform Map.empty = Inr [] \<and>
   initial_cart sample_platform [cart_key \<mapsto> ''''] = Inr [] \<and>
   initial_cart sample_platform [cart_key \<mapsto> ''[{"id":1,"amount":2}]''] =
     Inr [\<lparr>id' = 1, amount = Finite 2\<rparr>] \<and>
   initial_cart sample_platform [cart_key \<mapsto> ''[{"id":1,''] = Inl SyntaxError\<close>
proof -
  have p: \<open>JSON_parse sample_platform ''[{"id":1,"amount":2}]'' =
      Some [\<lparr>id' = 1, amount = Finite 2\<rparr>]\<close>
    by (simp add: sample_platform_def read_cart_one_two)
  have q: \<open>JSON_parse sample_platform ''[{"id":1,'' = None\<close>
    by (simp add: sample_platform_def read_cart_cut)
  show ?thesis
    using initial_cart_cases [of Map.empty sample_platform]
      initial_cart_cases [of "[cart_key \<mapsto> '''']" sample_platform]
      initial_cart_cases [of \<open>[cart_key \<mapsto> ''[{"id":1,"amount":2}]'']\<close> sample_platform]
      initial_cart_cases [of \<open>[cart_key \<mapsto> ''[{"id":1,'']\<close> sample_platform]
      p q
    by simp
qed

text \<open>
  Against C2 as stated: the store holds the text \<^verbatim>\<open>{\<close>, which is not empty and which the
  decoder rejects. The initialiser does not start with the empty list: it throws.
\<close>

theorem initial_cart_unreadable_throws:
  "initial_cart sample_platform [cart_key \<mapsto> ''{''] = Inl SyntaxError"
  by (simp add: initial_cart_def sample_platform_def read_cart_brace)

section \<open>addProduct\<close>

text \<open>What the try block does for a product that is in the cart, once the stock is known.\<close>

lemma addProduct_try_existing:
  assumes "find (\<lambda>item. id' item = productId) (cart s) = Some productFound"
    and "api_get_stock P productId = Some stock"
  shows "addProduct_try P productId s =
    (if js_gt (js_add (amount productFound) (Finite 1)) stock
     then (Returned, showToastError Quantidade_solicitada_fora_de_estoque s)
     else persistCartOnLocalStorage P
            (map (\<lambda>item. if id' item = productId
                         then item\<lparr>amount := js_add (amount item) (Finite 1)\<rparr>
                         else item) (cart s))
            (setCart
              (map (\<lambda>item. if id' item = productId
                           then item\<lparr>amount := js_add (amount item) (Finite 1)\<rparr>
                           else item) (cart s)) s))"
proof -
  have i: "id' productFound = productId"
    using find_id_Some [OF assms(1)] by simp
  show ?thesis
    unfolding addProduct_try_def handleUpdateAmountOnExistingProduct_def
    by (simp add: assms i Let_def)
qed

text \<open>
  The same for the operation, in the operators of the code: the call is refused when the
  rounded sum \<^verbatim>\<open>productFound.amount + 1\<close> is \<^verbatim>\<open>>\<close> the stock, and otherwise every entry
  of the identifier gets \<^verbatim>\<open>++item.amount\<close>, whatever the write does.
\<close>

lemma addProduct_existing_code:
  assumes "find (\<lambda>item. id' item = productId) (cart s) = Some productFound"
    and "api_get_stock P productId = Some stock"
    and "addProduct P productId s = (out, s')"
  shows "out = Returned \<and>
    (if js_gt (js_add (amount productFound) (Finite 1)) stock
     then cart s' = cart s \<and> localStorage s' = localStorage s \<and>
          toasts s' = toasts s @ [Quantidade_solicitada_fora_de_estoque]
     else cart s' = map (\<lambda>item. if id' item = productId
                                then item\<lparr>amount := js_add (amount item) (Finite 1)\<rparr>
                                else item) (cart s))"
  using assms(3)
  by (auto simp: addProduct_def addProduct_try_existing [OF assms(1,2)]
        try_catch_def persist_cases setCart_def showToastError_def
        split: if_splits)

text \<open>
  C3, as amended. The cart has an entry with the identifier (\<open>productFound\<close>, the first
  one) whose quantity is a whole number \<open>q\<close> of magnitude below 2^53, and the stock request
  is answered with a stock that is not \<^verbatim>\<open>NaN\<close>. When \<open>q + 1\<close> is at most the stock, the new
  cart is the old one with \<^verbatim>\<open>++item.amount\<close> at the identifier, which is exactly \<open>q + 1\<close> for
  that entry, and every other entry as it was, in the same place. Otherwise the cart and
  the store are unchanged and the out-of-stock notification is shown.
\<close>

theorem addProduct_existing:
  assumes "find (\<lambda>item. id' item = productId) (cart s) = Some productFound"
    and "amount productFound = Finite (of_int q)" and "\<bar>q\<bar> < 2 ^ 53"
    and "api_get_stock P productId = Some stock" and "stock \<noteq> NaN"
    and "addProduct P productId s = (out, s')"
  shows "out = Returned \<and>
    (if js_le (Finite (of_int (q + 1))) stock
     then cart s' = map (\<lambda>item. if id' item = productId
                                then item\<lparr>amount := js_add (amount item) (Finite 1)\<rparr>
                                else item) (cart s) \<and>
          js_add (amount productFound) (Finite 1) = Finite (of_int (q + 1))
     else cart s' = cart s \<and> localStorage s' = localStorage s \<and>
          toasts s' = toasts s @ [Quantidade_solicitada_fora_de_estoque])"
proof -
  have "\<bar>q + 1\<bar> \<le> 2 ^ 53"
    using assms(3) by simp
  then have sum: "js_add (amount productFound) (Finite 1) = Finite (of_int (q + 1))"
    using js_add_int [of q 1] assms(2) by simp
  have "js_gt (Finite (of_int (q + 1))) stock \<longleftrightarrow> \<not> js_le (Finite (of_int (q + 1))) stock"
    using assms(5) by (simp add: js_gt_iff_not_le)
  with addProduct_existing_code [OF assms(1,4,6)] sum show ?thesis
    by (simp split: if_splits)
qed

text \<open>
  Product 1 has a stock of 5: from 2 units it goes to 3 and product 2 keeps its entry; from
  5 units nothing changes and the notification is shown.
\<close>

theorem addProduct_existing_witness:
  "cart (snd (addProduct sample_platform 1
      (session [\<lparr>id' = 1, amount = Finite 2\<rparr>, \<lparr>id' = 2, amount = Finite 1\<rparr>]))) =
     [\<lparr>id' = 1, amount = Finite 3\<rparr>, \<lparr>id' = 2, amount = Finite 1\<rparr>] \<and>
   cart (snd (addProduct sample_platform 1 (session [\<lparr>id' = 1, amount = Finite 5\<rparr>]))) =
     [\<lparr>id' = 1, amount = Finite 5\<rparr>] \<and>
   toasts (snd (addProduct sample_platform 1 (session [\<lparr>id' = 1, amount = Finite 5\<rparr>]))) =
     [Quantidade_solicitada_fora_de_estoque]"
proof -
  have f: "find (\<lambda>item. id' item = 1) (cart (session (\<lparr>id' = 1, amount = a\<rparr> # c))) =
      Some \<lparr>id' = 1, amount = a\<rparr>" for a c
    by simp
  have a2: "amount \<lparr>id' = 1, amount = Finite 2\<rparr> = Finite (of_int 2)"
    and a5: "amount \<lparr>id' = 1, amount = Finite 5\<rparr> = Finite (of_int 5)"
    by simp_all
  have b2: "\<bar>2 :: int\<bar> < 2 ^ 53" and b5: "\<bar>5 :: int\<bar> < 2 ^ 53"
    by simp_all
  have st: "api_get_stock sample_platform 1 = Some (Finite 5)"
    by (simp add: sample_platform_def)
  have n: "Finite 5 \<noteq> NaN"
    by simp
  show ?thesis
    using addProduct_existing [OF f a2 b2 st n run_pair, of "[\<lparr>id' = 2, amount = Finite 1\<rparr>]"]
      addProduct_existing [OF f a5 b5 st n run_pair, of "[]"]
    by (simp add: js_le_def round64_small)
qed

text \<open>
  Against C3 as stated, twice. The cart holds 2^53 units of product 4, whose stock is
  2^53. The quantity plus one exceeds the stock, so the claim has the call refused with
  the out-of-stock notification. In the code \<^verbatim>\<open>productFound.amount + 1\<close> is rounded to
  2^53, which is not above the stock: no notification is shown, the snapshot is written,
  and the quantity stored is 2^53, not one more. And the cart holds 2 units of product 1
  and the stock answer is \<^verbatim>\<open>NaN\<close>: \<^verbatim>\<open>3 <= NaN\<close> is false, so the claim has the call refused,
  but \<^verbatim>\<open>3 > NaN\<close> is false too, and the code increments the quantity to 3 with no
  notification.
\<close>

theorem addProduct_rounds_at_2_53:
  \<open>\<not> (9007199254740992 + 1 \<le> (9007199254740992 :: rat)) \<and>
   toasts (snd (addProduct sample_platform 4
     (session [\<lparr>id' = 4, amount = Finite 9007199254740992\<rparr>]))) = [] \<and>
   cart (snd (addProduct sample_platform 4
     (session [\<lparr>id' = 4, amount = Finite 9007199254740992\<rparr>]))) =
     [\<lparr>id' = 4, amount = Finite 9007199254740992\<rparr>] \<and>
   localStorage (snd (addProduct sample_platform 4
     (session [\<lparr>id' = 4, amount = Finite 9007199254740992\<rparr>]))) cart_key =
     Some ''[{"id":4,"amount":9007199254740992}]'' \<and>
   \<not> js_le (Finite (2 + 1)) NaN \<and>
   toasts (snd (addProduct nan_stock_platform 1
     (session [\<lparr>id' = 1, amount = Finite 2\<rparr>]))) = [] \<and>
   cart (snd (addProduct nan_stock_platform 1
     (session [\<lparr>id' = 1, amount = Finite 2\<rparr>]))) = [\<lparr>id' = 1, amount = Finite 3\<rparr>]\<close>
proof -
  have "js_add (Finite 2) (Finite 1) = Finite 3"
    by (simp add: round64_small)
  then show ?thesis
    by (simp add: addProduct_def addProduct_try_def handleUpdateAmountOnExistingProduct_def
        try_catch_def persist_cases setCart_def nan_stock_platform_def sample_platform_def
        js_gt_def js_le_def Let_def js_add_2_53_one show_cart_four_2_53 del: js_add.simps)
qed

text \<open>
  C4. The cart has no entry with the identifier, and the product request and the stock
  request are answered (\<open>data\<close> is the product in the answer, \<open>stock\<close> the stock reported
  for it). With a stock above 0 the new cart is the old one followed by one entry, the
  product with quantity 1. With a stock of 0 the cart and the store are unchanged and the
  out-of-stock notification is shown.
\<close>

theorem addProduct_new:
  assumes "find (\<lambda>item. id' item = productId) (cart s) = None"
    and "api_get_product P productId = Some data"
    and "api_get_stock P (id' data) = Some stock"
    and "addProduct P productId s = (out, s')"
  shows "out = Returned \<and>
    (js_gt stock (Finite 0) \<longrightarrow> cart s' = cart s @ [data\<lparr>amount := Finite 1\<rparr>]) \<and>
    (stock = Finite 0 \<longrightarrow> cart s' = cart s \<and> localStorage s' = localStorage s \<and>
          toasts s' = toasts s @ [Quantidade_solicitada_fora_de_estoque])"
  using assms
  by (auto simp: addProduct_def addProduct_try_def handleAddNewProduct_def
        try_catch_def persist_cases setCart_def showToastError_def Let_def js_gt_def
        split: if_splits)

text \<open>
  Product 1 (stock 5) is appended after product 2; product 2 (stock 0) is refused.
\<close>

theorem addProduct_new_witness:
  "find (\<lambda>item. id' item = 1) (cart (session [\<lparr>id' = 2, amount = Finite 1\<rparr>])) = None \<and>
   js_gt (Finite 5) (Finite 0) \<and>
   cart (snd (addProduct sample_platform 1 (session [\<lparr>id' = 2, amount = Finite 1\<rparr>]))) =
     [\<lparr>id' = 2, amount = Finite 1\<rparr>, \<lparr>id' = 1, amount = Finite 1\<rparr>] \<and>
   cart (snd (addProduct sample_platform 2 (session [\<lparr>id' = 1, amount = Finite 1\<rparr>]))) =
     [\<lparr>id' = 1, amount = Finite 1\<rparr>] \<and>
   toasts (snd (addProduct sample_platform 2 (session [\<lparr>id' = 1, amount = Finite 1\<rparr>]))) =
     [Quantidade_solicitada_fora_de_estoque]"
proof -
  have f1: "find (\<lambda>item. id' item = 1) (cart (session [\<lparr>id' = 2, amount = Finite 1\<rparr>])) = None"
    by simp
  have f2: "find (\<lambda>item. id' item = 2) (cart (session [\<lparr>id' = 1, amount = Finite 1\<rparr>])) = None"
    by simp
  have p: "api_get_product sample_platform 1 = Some \<lparr>id' = 1, amount = Finite 0\<rparr>"
    "api_get_product sample_platform 2 = Some \<lparr>id' = 2, amount = Finite 0\<rparr>"
    by (simp_all add: sample_platform_def)
  have st: "api_get_stock sample_platform (id' \<lparr>id' = 1, amount = Finite 0\<rparr>) = Some (Finite 5)"
    "api_get_stock sample_platform (id' \<lparr>id' = 2, amount = Finite 0\<rparr>) = Some (Finite 0)"
    by (simp_all add: sample_platform_def)
  show ?thesis
    using addProduct_new [OF f1 p(1) st(1) run_pair] addProduct_new [OF f2 p(2) st(2) run_pair] f1
    by (simp add: js_gt_def)
qed

text \<open>
  C10. For a product that is not in the cart, the out-of-stock notification is shown exactly
  when the reported stock is 0, and then the cart is unchanged; line 105 tests
  \<^verbatim>\<open>stock.amount === 0\<close>. A negative stock is not refused, nor is any other stock than 0:
  the product is appended with quantity 1.
\<close>

theorem addProduct_negative_stock:
  assumes "find (\<lambda>item. id' item = productId) (cart s) = None"
    and "api_get_product P productId = Some data"
    and "api_get_stock P (id' data) = Some stock"
    and "addProduct P productId s = (out, s')"
  shows "(toasts s' = toasts s @ [Quantidade_solicitada_fora_de_estoque] \<longleftrightarrow>
       stock = Finite 0) \<and>
    (stock = Finite 0 \<longrightarrow> cart s' = cart s) \<and>
    (js_lt stock (Finite 0) \<longrightarrow> cart s' = cart s @ [data\<lparr>amount := Finite 1\<rparr>]) \<and>
    (stock \<noteq> Finite 0 \<longrightarrow> cart s' = cart s @ [data\<lparr>amount := Finite 1\<rparr>])"
  using assms
  by (auto simp: addProduct_def addProduct_try_def handleAddNewProduct_def
        try_catch_def persist_cases setCart_def showToastError_def Let_def
        split: if_splits)

text \<open>Product 3 has a stock of -1 and enters the cart; product 2 has a stock of 0.\<close>

theorem addProduct_negative_stock_witness:
  "js_lt (Finite (- 1)) (Finite 0) \<and>
   cart (snd (addProduct sample_platform 3 (session []))) =
     [\<lparr>id' = 3, amount = Finite 1\<rparr>] \<and>
   cart (snd (addProduct sample_platform 2 (session []))) = [] \<and>
   toasts (snd (addProduct sample_platform 2 (session []))) =
     [Quantidade_solicitada_fora_de_estoque]"
proof -
  have f: "find (\<lambda>item. id' item = i) (cart (session [])) = None" for i
    by simp
  have p: "api_get_product sample_platform 3 = Some \<lparr>id' = 3, amount = Finite 0\<rparr>"
    "api_get_product sample_platform 2 = Some \<lparr>id' = 2, amount = Finite 0\<rparr>"
    by (simp_all add: sample_platform_def)
  have st:
    "api_get_stock sample_platform (id' \<lparr>id' = 3, amount = Finite 0\<rparr>) = Some (Finite (- 1))"
    "api_get_stock sample_platform (id' \<lparr>id' = 2, amount = Finite 0\<rparr>) = Some (Finite 0)"
    by (simp_all add: sample_platform_def)
  show ?thesis
    using addProduct_negative_stock [OF f p(1) st(1) run_pair]
      addProduct_negative_stock [OF f p(2) st(2) run_pair]
    by simp
qed

section \<open>removeProduct\<close>

text \<open>
  In a cart without two entries of one identifier, the filter of line 59 takes out the one
  entry with the identifier and keeps the others in their order.
\<close>

lemma filter_distinct_id:
  assumes "distinct (map id' c)" and "item \<in> set c"
  shows "\<exists>xs ys. c = xs @ item # ys \<and> filter (\<lambda>x. id' x \<noteq> id' item) c = xs @ ys"
proof -
  from assms(2) obtain xs ys where c: "c = xs @ item # ys"
    by (auto dest: split_list)
  with assms(1) have "id' item \<notin> id' ` set xs" "id' item \<notin> id' ` set ys"
    by auto
  then have "\<forall>x \<in> set xs \<union> set ys. id' x \<noteq> id' item"
    by (metis UnE imageI)
  then have "filter (\<lambda>x. id' x \<noteq> id' item) c = xs @ ys"
    by (simp add: c)
  with c show ?thesis by blast
qed

text \<open>
  C5. When the cart has an entry with the identifier, the new cart is the old one without
  the entries of that identifier, the others unchanged and in order; in a cart whose
  identifiers are distinct that is the old cart with exactly one entry taken out. When the
  cart has no such entry, the cart and the store are unchanged and the notification of
  removeProduct is shown.
\<close>

theorem removeProduct_cases:
  assumes "removeProduct P productId s = (out, s')"
  shows "out = Returned \<and>
    (productId \<in> id' ` set (cart s) \<longrightarrow>
       cart s' = filter (\<lambda>item. id' item \<noteq> productId) (cart s) \<and>
       (distinct (map id' (cart s)) \<longrightarrow>
          (\<exists>xs item ys. cart s = xs @ item # ys \<and> id' item = productId \<and>
             cart s' = xs @ ys))) \<and>
    (productId \<notin> id' ` set (cart s) \<longrightarrow>
       cart s' = cart s \<and> localStorage s' = localStorage s \<and>
       toasts s' = toasts s @ [Erro_na_remocao_do_produto])"
proof (cases "find (\<lambda>item. id' item = productId) (cart s)")
  case None
  then have "productId \<notin> id' ` set (cart s)"
    by (simp add: find_id_None)
  with None assms show ?thesis
    by (auto simp: removeProduct_def removeProduct_try_def try_catch_def showToastError_def)
next
  case (Some p)
  note p = find_id_Some [OF Some]
  have c: "cart s' = filter (\<lambda>item. id' item \<noteq> productId) (cart s)" and o: "out = Returned"
    using assms Some
    by (auto simp: removeProduct_def removeProduct_try_def try_catch_def persist_cases
        setCart_def showToastError_def Let_def split: if_splits)
  have "\<exists>xs item ys. cart s = xs @ item # ys \<and> id' item = productId \<and> cart s' = xs @ ys"
    if "distinct (map id' (cart s))"
    using filter_distinct_id [OF that conjunct2 [OF p]] p c by auto
  with c o p show ?thesis by auto
qed

text \<open>Product 1 leaves a cart of two; product 9 is not in the cart.\<close>

theorem removeProduct_cases_witness:
  "cart (snd (removeProduct sample_platform 1
      (session [\<lparr>id' = 1, amount = Finite 2\<rparr>, \<lparr>id' = 2, amount = Finite 1\<rparr>]))) =
     [\<lparr>id' = 2, amount = Finite 1\<rparr>] \<and>
   cart (snd (removeProduct sample_platform 9 (session [\<lparr>id' = 1, amount = Finite 2\<rparr>]))) =
     [\<lparr>id' = 1, amount = Finite 2\<rparr>] \<and>
   toasts (snd (removeProduct sample_platform 9 (session [\<lparr>id' = 1, amount = Finite 2\<rparr>]))) =
     [Erro_na_remocao_do_produto]"
  using removeProduct_cases [OF run_pair, of sample_platform 1
      "session [\<lparr>id' = 1, amount = Finite 2\<rparr>, \<lparr>id' = 2, amount = Finite 1\<rparr>]"]
    removeProduct_cases [OF run_pair, of sample_platform 9
      "session [\<lparr>id' = 1, amount = Finite 2\<rparr>]"]
  by simp

section \<open>updateProductAmount\<close>

text \<open>
  C6. A requested amount of 0 or less, a cart without an entry for the identifier, or an
  entry (the first with the identifier) whose quantity is 0 or less, each in the sense of
  the \<^verbatim>\<open><=\<close> of line 76: the operation returns in the state it started in, but for the
  notification of updateProductAmount. The cart and the store are unchanged and no request
  is sent.
\<close>

theorem updateProductAmount_invalid:
  assumes "js_le amount' (Finite 0) \<or>
     find (\<lambda>item. id' item = productId) (cart s) = None \<or>
     (\<exists>p. find (\<lambda>item. id' item = productId) (cart s) = Some p \<and>
          js_le (amount p) (Finite 0))"
  shows "updateProductAmount P productId amount' s =
     (Returned, s\<lparr>toasts := toasts s @ [Erro_na_alteracao_de_quantidade_do_produto]\<rparr>)"
  using assms
  by (auto simp: updateProductAmount_def updateProductAmount_try_def try_catch_def
      showToastError_def split: option.splits)

text \<open>One run for each of the three reasons.\<close>

theorem updateProductAmount_invalid_witness:
  "js_le (Finite 0) (Finite 0) \<and>
   updateProductAmount sample_platform 1 (Finite 0) (session [\<lparr>id' = 1, amount = Finite 2\<rparr>]) =
     (Returned, (session [\<lparr>id' = 1, amount = Finite 2\<rparr>])
        \<lparr>toasts := [Erro_na_alteracao_de_quantidade_do_produto]\<rparr>) \<and>
   updateProductAmount sample_platform 9 (Finite 1) (session [\<lparr>id' = 1, amount = Finite 2\<rparr>]) =
     (Returned, (session [\<lparr>id' = 1, amount = Finite 2\<rparr>])
        \<lparr>toasts := [Erro_na_alteracao_de_quantidade_do_produto]\<rparr>) \<and>
   updateProductAmount sample_platform 1 (Finite 1) (session [\<lparr>id' = 1, amount = Finite 0\<rparr>]) =
     (Returned, (session [\<lparr>id' = 1, amount = Finite 0\<rparr>])
        \<lparr>toasts := [Erro_na_alteracao_de_quantidade_do_produto]\<rparr>)"
proof -
  have z: "js_le (Finite 0) (Finite 0)"
    by (simp add: js_le_def)
  have a: "js_le (Finite 0) (Finite 0) \<or>
      find (\<lambda>item. id' item = 1) (cart (session [\<lparr>id' = 1, amount = Finite 2\<rparr>])) = None \<or>
      (\<exists>p. find (\<lambda>item. id' item = 1) (cart (session [\<lparr>id' = 1, amount = Finite 2\<rparr>])) =
             Some p \<and> js_le (amount p) (Finite 0))"
    using z by simp
  have b: "js_le (Finite 1) (Finite 0) \<or>
      find (\<lambda>item. id' item = 9) (cart (session [\<lparr>id' = 1, amount = Finite 2\<rparr>])) = None \<or>
      (\<exists>p. find (\<lambda>item. id' item = 9) (cart (session [\<lparr>id' = 1, amount = Finite 2\<rparr>])) =
             Some p \<and> js_le (amount p) (Finite 0))"
    by simp
  have c: "js_le (Finite 1) (Finite 0) \<or>
      find (\<lambda>item. id' item = 1) (cart (session [\<lparr>id' = 1, amount = Finite 0\<rparr>])) = None \<or>
      (\<exists>p. find (\<lambda>item. id' item = 1) (cart (session [\<lparr>id' = 1, amount = Finite 0\<rparr>])) =
             Some p \<and> js_le (amount p) (Finite 0))"
    using z by simp
  show ?thesis
    using updateProductAmount_invalid [OF a, of sample_platform]
      updateProductAmount_invalid [OF b, of sample_platform]
      updateProductAmount_invalid [OF c, of sample_platform] z
    by (simp add: session_def)
qed

text \<open>
  What the operation does on a request that passes line 76 and whose stock request is
  answered: the guard of line 83 adds the quantity in the cart to the requested one.
\<close>

lemma updateProductAmount_valid:
  assumes "find (\<lambda>item. id' item = productId) (cart s) = Some productFound"
    and "\<not> js_le amount' (Finite 0)" and "\<not> js_le (amount productFound) (Finite 0)"
    and "api_get_stock P productId = Some stock"
    and "updateProductAmount P productId amount' s = (out, s')"
  shows "out = Returned \<and>
    (if js_gt (js_add (amount productFound) amount') stock
     then cart s' = cart s \<and> localStorage s' = localStorage s \<and>
          toasts s' = toasts s @ [Quantidade_solicitada_fora_de_estoque]
     else cart s' = map (\<lambda>item. if id' item = productId
                                then item\<lparr>amount := amount'\<rparr> else item) (cart s))"
proof -
  have i: "id' productFound = productId"
    using find_id_Some [OF assms(1)] by simp
  show ?thesis
    using assms(2-5)
    by (auto simp: updateProductAmount_def updateProductAmount_try_def assms(1) i
        try_catch_def persist_cases setCart_def showToastError_def Let_def
        split: if_splits)
qed

text \<open>
  C1, on the example of the specification: the cart holds 2 units of product 1, the stock
  of product 1 is 5, and 4 units are requested. The specification expects the quantity to
  become 4, since 4 is within the stock. The operation refuses: 2 + 4 exceeds 5. It shows
  the out-of-stock notification and leaves the cart at 2 units.
\<close>

theorem updateProductAmount_example_rejected:
  "updateProductAmount sample_platform 1 (Finite 4) (session [\<lparr>id' = 1, amount = Finite 2\<rparr>]) =
     (Returned, (session [\<lparr>id' = 1, amount = Finite 2\<rparr>])
        \<lparr>toasts := [Quantidade_solicitada_fora_de_estoque]\<rparr>)"
  by (simp add: updateProductAmount_def updateProductAmount_try_def try_catch_def
      showToastError_def sample_platform_def session_def js_le_def js_gt_def round64_small)

section \<open>The persisted snapshot\<close>






section \<open>Failures\<close>




section \<open>The cart invariant\<close>

lemma cart_invariant_append:
  "cart_invariant c \<Longrightarrow> id' p \<notin> id' ` set c \<Longrightarrow> js_le (Finite 1) (amount p) \<Longrightarrow>
   cart_invariant (c @ [p])"
  by (simp add: cart_invariant_def)

lemma cart_invariant_filter:
  "cart_invariant c \<Longrightarrow> cart_invariant (filter f c)"
  by (simp add: cart_invariant_def distinct_map_filter list_all_iff)

lemma cart_invariant_map:
  assumes "cart_invariant c" and "\<And>item. id' (f item) = id' item"
    and "\<And>item. js_le (Finite 1) (amount item) \<Longrightarrow> js_le (Finite 1) (amount (f item))"
  shows "cart_invariant (map f c)"
proof -
  have ids: "map id' (map f c) = map id' c"
    by (simp add: assms(2))
  have "distinct (map id' (map f c))"
    unfolding ids using assms(1) by (simp add: cart_invariant_def)
  moreover have "list_all (\<lambda>item. js_le (Finite 1) (amount item)) (map f c)"
    using assms(1,3) by (simp add: cart_invariant_def list_all_iff)
  ultimately show ?thesis
    unfolding cart_invariant_def by blast
qed

lemma cart_invariant_increment:
  "cart_invariant c \<Longrightarrow>
   cart_invariant
     (map (\<lambda>item. if id' item = i then item\<lparr>amount := js_add (amount item) (Finite 1)\<rparr>
                  else item) c)"
  by (rule cart_invariant_map) (auto simp: js_add_one_ge_one)

lemma cart_invariant_set_amount:
  "cart_invariant c \<Longrightarrow> js_le (Finite 1) a \<Longrightarrow>
   cart_invariant (map (\<lambda>item. if id' item = i then item\<lparr>amount := a\<rparr> else item) c)"
  by (rule cart_invariant_map) auto

lemma handleAddNewProduct_invariant:
  assumes "cart_invariant (cart s)" and "productId \<notin> id' ` set (cart s)"
    and "\<forall>data. api_get_product P productId = Some data \<longrightarrow> id' data = productId"
  shows "cart_invariant (cart (snd (handleAddNewProduct P productId s)))"
  using assms cart_invariant_append [of "cart s"]
  by (auto simp: handleAddNewProduct_def persist_cases setCart_def showToastError_def Let_def
      js_le_def split: option.splits)

lemma handleUpdateAmountOnExistingProduct_invariant:
  assumes "cart_invariant (cart s)"
  shows "cart_invariant (cart (snd (handleUpdateAmountOnExistingProduct P productFound s)))"
  using assms
  by (auto simp: handleUpdateAmountOnExistingProduct_def persist_cases setCart_def
      showToastError_def Let_def cart_invariant_increment split: option.splits)

text \<open>
  C9, as amended. On a platform whose API answers a product request with a product of the
  requested identifier, whatever the stock answers are, and for a requested amount that is
  at most 0 or at least 1 (every whole number is), each of the three operations takes a
  cart with distinct identifiers and quantities of at least 1 to such a cart.
\<close>

theorem cart_invariant_preserved:
  assumes "cart_invariant (cart s)"
    and "\<forall>productId data. api_get_product P productId = Some data \<longrightarrow> id' data = productId"
    and "\<forall>productId amount'. op = UpdateProductAmount productId amount' \<longrightarrow>
           js_le amount' (Finite 0) \<or> js_le (Finite 1) amount'"
    and "run P op s = (out, s')"
  shows "cart_invariant (cart s')"
proof -
  have "cart_invariant (cart (snd (run_try P op s)))"
  proof (cases op)
    case (AddProduct productId)
    show ?thesis
    proof (cases "find (\<lambda>item. id' item = productId) (cart s)")
      case None
      then have "productId \<notin> id' ` set (cart s)"
        by (simp add: find_id_None)
      with assms(1,2) None AddProduct show ?thesis
        by (simp add: addProduct_try_def handleAddNewProduct_invariant)
    next
      case (Some p)
      with assms(1) AddProduct show ?thesis
        by (simp add: addProduct_try_def handleUpdateAmountOnExistingProduct_invariant)
    qed
  next
    case (RemoveProduct productId)
    with assms(1) show ?thesis
      by (auto simp: removeProduct_try_def persist_cases setCart_def showToastError_def
          Let_def cart_invariant_filter split: option.splits)
  next
    case (UpdateProductAmount productId amount')
    with assms(3) have "js_le amount' (Finite 0) \<or> js_le (Finite 1) amount'"
      by simp
    with UpdateProductAmount assms(1) show ?thesis
      by (auto simp: updateProductAmount_try_def persist_cases setCart_def showToastError_def
          Let_def cart_invariant_set_amount split: option.splits)
  qed
  moreover have "cart s' = cart (snd (run_try P op s))"
    using assms(4) cart_try_catch [of "run_try P op s" "catch_message op"]
    by (simp add: run_try_catch)
  ultimately show ?thesis by simp
qed

text \<open>One call of each operation on the sample platform, whose API answers as asked.\<close>

theorem cart_invariant_preserved_witness:
  "cart_invariant (cart (session [\<lparr>id' = 1, amount = Finite 1\<rparr>])) \<and>
   js_le (Finite 1) (Finite 4) \<and>
   cart_invariant (cart (snd (run sample_platform (AddProduct 3)
     (session [\<lparr>id' = 1, amount = Finite 1\<rparr>])))) \<and>
   cart_invariant (cart (snd (run sample_platform (UpdateProductAmount 1 (Finite 4))
     (session [\<lparr>id' = 1, amount = Finite 1\<rparr>])))) \<and>
   cart_invariant (cart (snd (run sample_platform (RemoveProduct 1)
     (session [\<lparr>id' = 1, amount = Finite 1\<rparr>]))))"
proof -
  have i: "cart_invariant (cart (session [\<lparr>id' = 1, amount = Finite 1\<rparr>]))"
    by (simp add: cart_invariant_def js_le_def)
  have a: "\<forall>productId data. api_get_product sample_platform productId = Some data \<longrightarrow>
      id' data = productId"
    by (auto simp: sample_platform_def split: if_splits)
  have w: "js_le (Finite 1) (Finite 4)"
    by (simp add: js_le_def)
  have r: "\<forall>productId amount'. op = UpdateProductAmount productId amount' \<longrightarrow>
      js_le amount' (Finite 0) \<or> js_le (Finite 1) amount'"
    if "op = AddProduct 3 \<or> op = UpdateProductAmount 1 (Finite 4) \<or> op = RemoveProduct 1"
    for op
    using that w by auto
  show ?thesis
    using cart_invariant_preserved [OF i a r run_pair, of "AddProduct 3"]
      cart_invariant_preserved [OF i a r run_pair, of "UpdateProductAmount 1 (Finite 4)"]
      cart_invariant_preserved [OF i a r run_pair, of "RemoveProduct 1"] i w
    by simp
qed

text \<open>
  Against C9 as stated, twice. The cart holds 2 units of product 1, whose stock is 5, and
  half a unit is requested: \<^verbatim>\<open>0.5 <= 0\<close> is false and \<^verbatim>\<open>2 + 0.5 > 5\<close> is false, so the
  quantity becomes 0.5, which is below 1. And the cart holds one unit of product 1,
  product 2 is added, and the API answers the request for product 2 with product 1 (stock
  5): line 113 copies the answer, identifier included, and the cart then has two entries
  for product 1.
\<close>

theorem invariant_broken_by_fraction_and_foreign_answer:
  "cart_invariant (cart (session [\<lparr>id' = 1, amount = Finite 2\<rparr>])) \<and>
   toasts (snd (updateProductAmount sample_platform 1 (Finite (1 / 2))
     (session [\<lparr>id' = 1, amount = Finite 2\<rparr>]))) = [] \<and>
   cart (snd (updateProductAmount sample_platform 1 (Finite (1 / 2))
     (session [\<lparr>id' = 1, amount = Finite 2\<rparr>]))) = [\<lparr>id' = 1, amount = Finite (1 / 2)\<rparr>] \<and>
   \<not> cart_invariant (cart (snd (updateProductAmount sample_platform 1 (Finite (1 / 2))
     (session [\<lparr>id' = 1, amount = Finite 2\<rparr>])))) \<and>
   cart_invariant (cart (session [\<lparr>id' = 1, amount = Finite 1\<rparr>])) \<and>
   cart (snd (addProduct one_product_platform 2 (session [\<lparr>id' = 1, amount = Finite 1\<rparr>]))) =
     [\<lparr>id' = 1, amount = Finite 1\<rparr>, \<lparr>id' = 1, amount = Finite 1\<rparr>] \<and>
   \<not> cart_invariant (cart (snd (addProduct one_product_platform 2
     (session [\<lparr>id' = 1, amount = Finite 1\<rparr>]))))"
  by (simp add: updateProductAmount_def updateProductAmount_try_def
      addProduct_def addProduct_try_def handleAddNewProduct_def try_catch_def
      persist_cases setCart_def showToastError_def one_product_platform_def
      sample_platform_def cart_invariant_def Let_def js_le_def js_gt_def
      js_add_two_half del: js_add.simps)

end
